theory Spec2Isabelle
  imports Main "HOL-Library.Code_Target_Nat"
begin

section \<open>The XYK runtime module of the dex runtime (src/runtime/XYK.ts)\<close>

text \<open>
  A shallow embedding of \<^verbatim>\<open>XYK.ts\<close>: the identity derivation (\<^verbatim>\<open>TokenPair\<close>,
  \<^verbatim>\<open>PoolKey\<close>, \<^verbatim>\<open>LPTokenId\<close>), the two pricing functions and the three runtime
  methods \<^verbatim>\<open>createPool\<close>, \<^verbatim>\<open>sell\<close> and \<^verbatim>\<open>buy\<close>.
\<close>

subsection \<open>Numeric types\<close>

text \<open>
  Modelled from the spec: \<^verbatim>\<open>TokenId\<close> and \<^verbatim>\<open>Balance\<close> are imported from
  \<^verbatim>\<open>./Balances\<close>, which is not among the sources. The spec describes a token
  identifier as an opaque identifier with a total order, and a balance as a non-negative
  fixed-width integer: an unsigned 64-bit integer of the proof-system library. A field
  element is only ever built from a token identifier here, so it is a natural number too.
\<close>

type_synonym Field = nat
type_synonym TokenId = nat
type_synonym Balance = nat

text \<open>
  How a call can fail: on an assertion, whose message is absent in one assertion of the
  source; on the one failure of the ledger, \<open>InsufficientBalance\<close>; on an arithmetic
  operation that has no result in the 64 bits of a balance, \<open>ArithmeticFault\<close>.
\<close>

datatype failure =
    AssertFailed "string option"
  | InsufficientBalance
  | ArithmeticFault

text \<open>The table \<^verbatim>\<open>errors\<close> of the source, message by message.\<close>

definition errors_poolExists :: string where
  "errors_poolExists = ''Pool already exists''"

definition errors_tokensMatch :: string where
  "errors_tokensMatch = ''Cannot create pool with matching tokens''"

definition errors_tokenOutAmountTooLow :: string where
  "errors_tokenOutAmountTooLow = ''Token out amount too low''"

definition errors_tokenInAmountTooHigh :: string where
  "errors_tokenInAmountTooHigh = ''Token in amount too high''"

text \<open>
  Modelled from the spec: the arithmetic of \<^verbatim>\<open>Balance\<close>. The result of an
  operation is exact where it is a 64-bit unsigned integer; a sum or product of
  \<open>2 ^ 64\<close> or more, a difference below zero and a quotient by zero are arithmetic
  faults, which throw and end the call at once.
\<close>

definition Balance_add :: "Balance \<Rightarrow> Balance \<Rightarrow> failure + Balance" where
  "Balance_add a b = (if a + b < 2 ^ 64 then Inr (a + b) else Inl ArithmeticFault)"

definition Balance_mul :: "Balance \<Rightarrow> Balance \<Rightarrow> failure + Balance" where
  "Balance_mul a b = (if a * b < 2 ^ 64 then Inr (a * b) else Inl ArithmeticFault)"

definition Balance_sub :: "Balance \<Rightarrow> Balance \<Rightarrow> failure + Balance" where
  "Balance_sub a b = (if a < b then Inl ArithmeticFault else Inr (a - b))"

definition Balance_div :: "Balance \<Rightarrow> Balance \<Rightarrow> failure + Balance" where
  "Balance_div a b = (if b = 0 then Inl ArithmeticFault else Inr (a div b))"

subsection \<open>Assertions\<close>

text \<open>
  \<^verbatim>\<open>assert(condition, message)\<close> of the protocol library does not end the call. It
  marks the status of the call as failed, and the call runs on: this is why the source
  substitutes safe operands before it asserts. The call reports the first message that a
  failed assertion has given. The status is \<open>None\<close> while every assertion has held, and
  otherwise the failure that the call reports so far.
\<close>

type_synonym Status = "failure option"

definition recordFailure :: "failure \<Rightarrow> Status \<Rightarrow> Status" where
  "recordFailure f status =
     (case status of
        None \<Rightarrow> Some f
      | Some (AssertFailed None) \<Rightarrow> Some f
      | Some g \<Rightarrow> Some g)"

definition assert :: "bool \<Rightarrow> string option \<Rightarrow> Status \<Rightarrow> Status" where
  "assert condition message status =
     (if condition then status else recordFailure (AssertFailed message) status)"

text \<open>
  What is kept of a call that has run to its end from the state \<open>s\<close> to the state
  \<open>s'\<close>: the state reached if every assertion has held, and otherwise the failure with
  the state before the call, since the changes of a failed call are not applied.
\<close>

definition outcome :: "Status \<Rightarrow> 's \<Rightarrow> 's \<Rightarrow> failure option \<times> 's" where
  "outcome status s s' = (case status of None \<Rightarrow> (None, s') | Some f \<Rightarrow> (Some f, s))"

subsection \<open>Identity derivation\<close>

record TokenPair =
  TokenPair_tokenInId :: TokenId
  TokenPair_tokenOutId :: TokenId

text \<open>\<^verbatim>\<open>TokenPair.from\<close>: the larger identifier is stored first.\<close>

definition TokenPair_from :: "TokenId \<Rightarrow> TokenId \<Rightarrow> TokenPair" where
  "TokenPair_from tokenInId tokenOutId =
     (if tokenInId > tokenOutId
        then \<lparr>TokenPair_tokenInId = tokenInId, TokenPair_tokenOutId = tokenOutId\<rparr>
      else \<lparr>TokenPair_tokenInId = tokenOutId, TokenPair_tokenOutId = tokenInId\<rparr>)"

text \<open>\<^verbatim>\<open>TokenPair.toFields\<close>: the fields of the struct, in declaration order.\<close>

definition TokenPair_toFields :: "TokenPair \<Rightarrow> Field list" where
  "TokenPair_toFields p = [TokenPair_tokenInId p, TokenPair_tokenOutId p]"

text \<open>
  The hash functions and the encoding of a group element as a public key belong to the
  proof-system library. They are parameters of the model: \<open>Poseidon_hashToGroup\<close>
  returns the coordinates \<open>(x, (x0, x1))\<close> of the point, \<open>PublicKey_fromGroup\<close> takes
  the pair that \<^verbatim>\<open>Group.fromFields\<close> builds. Every theorem below holds for all of them.
  \<^verbatim>\<open>TokenId.from\<close> reads the hash as a token identifier and is the identity here.
\<close>

record 'pk Primitives =
  Poseidon_hash :: "Field list \<Rightarrow> Field"
  Poseidon_hashToGroup :: "Field list \<Rightarrow> Field \<times> (Field \<times> Field)"
  PublicKey_fromGroup :: "Field \<times> Field \<Rightarrow> 'pk"

definition LPTokenId_fromTokenIdPair ::
    "'pk Primitives \<Rightarrow> TokenId \<Rightarrow> TokenId \<Rightarrow> TokenId" where
  "LPTokenId_fromTokenIdPair P tokenInId tokenOutId =
     Poseidon_hash P (TokenPair_toFields (TokenPair_from tokenInId tokenOutId))"

definition PoolKey_fromTokenIdPair :: "'pk Primitives \<Rightarrow> TokenId \<Rightarrow> TokenId \<Rightarrow> 'pk" where
  "PoolKey_fromTokenIdPair P tokenInId tokenOutId =
     (let tokenPair = TokenPair_from tokenInId tokenOutId
      in case Poseidon_hashToGroup P (TokenPair_toFields tokenPair) of
           (x, (x0, x1)) \<Rightarrow> PublicKey_fromGroup P (x, x0))"

subsection \<open>Reserve math\<close>

definition calculateTokenOutAmountFromReserves ::
    "Balance \<Rightarrow> Balance \<Rightarrow> Balance \<Rightarrow> failure + Balance" where
  "calculateTokenOutAmountFromReserves tokenInReserve tokenOutReserve tokenInAmount =
     (case Balance_mul tokenOutReserve tokenInAmount of
        Inl e \<Rightarrow> Inl e
      | Inr numerator \<Rightarrow>
          (case Balance_add tokenInReserve tokenInAmount of
             Inl e \<Rightarrow> Inl e
           | Inr denominator \<Rightarrow> Balance_div numerator denominator))"

text \<open>
  \<^verbatim>\<open>calculateTokenInAmountFromReserves\<close> asserts that the denominator is positive and
  then divides by the safe denominator, whatever the assertion found: it returns an amount
  together with the status of the call. The padded reserve is computed in every case.
\<close>

definition calculateTokenInAmountFromReserves ::
    "Balance \<Rightarrow> Balance \<Rightarrow> Balance \<Rightarrow> Status \<Rightarrow> failure + Balance \<times> Status" where
  "calculateTokenInAmountFromReserves tokenInReserve tokenOutReserve tokenOutAmount status =
     (case Balance_add tokenOutReserve tokenOutAmount of
        Inl e \<Rightarrow> Inl e
      | Inr paddedTokenOutReserve \<Rightarrow>
          (let tokenOutReserveIsSufficient = (tokenOutReserve \<ge> tokenOutAmount);
               safeTokenOutReserve =
                 (if tokenOutReserveIsSufficient then tokenOutReserve
                  else paddedTokenOutReserve)
           in case Balance_mul tokenInReserve tokenOutAmount of
                Inl e \<Rightarrow> Inl e
              | Inr numerator \<Rightarrow>
                  (case Balance_sub safeTokenOutReserve tokenOutAmount of
                     Inl e \<Rightarrow> Inl e
                   | Inr denominator \<Rightarrow>
                       (let denominatorIsSafe = (denominator > 0);
                            safeDenominator = (if denominatorIsSafe then denominator else 1);
                            status' = assert denominatorIsSafe None status
                        in case Balance_div numerator safeDenominator of
                             Inl e \<Rightarrow> Inl e
                           | Inr tokenInAmount \<Rightarrow> Inr (tokenInAmount, status')))))"

subsection \<open>State\<close>

text \<open>
  The state the module works on: its own map \<^verbatim>\<open>pools\<close> from pool key to the
  existence marker, and the balances map of the \<^verbatim>\<open>Balances\<close> module, keyed by
  token identifier and address. An address is a public key, as a pool key is.
\<close>

record 'pk State =
  pools :: "'pk \<rightharpoonup> Field"
  balances :: "TokenId \<times> 'pk \<rightharpoonup> Balance"

definition defaultPoolValue :: Field where
  "defaultPoolValue = 0"

text \<open>
  Modelled from the spec: the ledger, the class \<^verbatim>\<open>Balances\<close> of \<^verbatim>\<open>./Balances\<close>,
  which is not among the sources. \<open>getBalance\<close> returns the recorded balance, zero if
  none is recorded; \<open>transfer\<close> fails with \<open>InsufficientBalance\<close> if the balance of
  the source is below the amount, and otherwise debits the source and credits the
  destination; \<open>mint\<close> credits the destination and always succeeds. The failure of a
  transfer is a failed assertion of the ledger: \<open>recordResult\<close> enters it into the
  status of the call, which runs on.
\<close>

definition getBalance :: "TokenId \<Rightarrow> 'pk \<Rightarrow> 'pk State \<Rightarrow> Balance" where
  "getBalance tokenId address s =
     (case balances s (tokenId, address) of None \<Rightarrow> 0 | Some b \<Rightarrow> b)"

definition setBalance :: "TokenId \<Rightarrow> 'pk \<Rightarrow> Balance \<Rightarrow> 'pk State \<Rightarrow> 'pk State" where
  "setBalance tokenId address amount s =
     s\<lparr>balances := (balances s)((tokenId, address) \<mapsto> amount)\<rparr>"

definition transfer ::
    "TokenId \<Rightarrow> 'pk \<Rightarrow> 'pk \<Rightarrow> Balance \<Rightarrow> 'pk State \<Rightarrow> failure option \<times> 'pk State" where
  "transfer tokenId from to amount s =
     (if getBalance tokenId from s < amount then (Some InsufficientBalance, s)
      else
        (let s1 = setBalance tokenId from (getBalance tokenId from s - amount) s;
             s2 = setBalance tokenId to (getBalance tokenId to s1 + amount) s1
         in (None, s2)))"

definition mint :: "TokenId \<Rightarrow> 'pk \<Rightarrow> Balance \<Rightarrow> 'pk State \<Rightarrow> 'pk State" where
  "mint tokenId address amount s =
     setBalance tokenId address (getBalance tokenId address s + amount) s"

definition recordResult :: "failure option \<Rightarrow> Status \<Rightarrow> Status" where
  "recordResult r status = (case r of None \<Rightarrow> status | Some f \<Rightarrow> recordFailure f status)"

subsection \<open>The runtime methods\<close>

text \<open>
  A method takes the state and runs to its end unless an arithmetic operation throws. Its
  result is the failure, if any, with the state that is kept: the state reached by a call
  all of whose assertions have held, and the state before the call otherwise. \<open>sender\<close>
  is \<^verbatim>\<open>this.transaction.sender\<close>.
\<close>

definition poolExists :: "'pk Primitives \<Rightarrow> TokenId \<Rightarrow> TokenId \<Rightarrow> 'pk State \<Rightarrow> bool" where
  "poolExists P tokenInId tokenOutId s =
     (let key = PoolKey_fromTokenIdPair P tokenInId tokenOutId;
          pool = pools s key
      in pool \<noteq> None)"

definition assertPoolExists ::
    "'pk Primitives \<Rightarrow> TokenId \<Rightarrow> TokenId \<Rightarrow> 'pk State \<Rightarrow> Status \<Rightarrow> Status" where
  "assertPoolExists P tokenInId tokenOutId s status =
     assert (poolExists P tokenInId tokenOutId s) (Some errors_poolExists) status"

definition createPool ::
    "'pk Primitives \<Rightarrow> 'pk \<Rightarrow> TokenId \<Rightarrow> TokenId \<Rightarrow> Balance \<Rightarrow> Balance \<Rightarrow> 'pk State
       \<Rightarrow> failure option \<times> 'pk State" where
  "createPool P sender tokenInId tokenOutId tokenInAmount tokenOutAmount s =
     (let status0 = assert (tokenInId \<noteq> tokenOutId) (Some errors_tokensMatch) None;
          status1 = assert (\<not> poolExists P tokenInId tokenOutId s) (Some errors_poolExists)
                      status0;
          key = PoolKey_fromTokenIdPair P tokenInId tokenOutId;
          s1 = s\<lparr>pools := (pools s)(key \<mapsto> defaultPoolValue)\<rparr>;
          creator = sender;
          pool = PoolKey_fromTokenIdPair P tokenInId tokenOutId
      in case transfer tokenInId creator pool tokenInAmount s1 of
           (r1, s2) \<Rightarrow>
             (case transfer tokenOutId creator pool tokenOutAmount s2 of
                (r2, s3) \<Rightarrow>
                  (let status2 = recordResult r1 status1;
                       status3 = recordResult r2 status2;
                       lpTokenId = LPTokenId_fromTokenIdPair P tokenInId tokenOutId;
                       s4 = mint lpTokenId creator tokenInAmount s3
                   in outcome status3 s s4)))"

definition calculateTokenOutAmount ::
    "'pk Primitives \<Rightarrow> TokenId \<Rightarrow> TokenId \<Rightarrow> Balance \<Rightarrow> 'pk State \<Rightarrow> failure + Balance" where
  "calculateTokenOutAmount P tokenInId tokenOutId tokenInAmount s =
     (let pool = PoolKey_fromTokenIdPair P tokenInId tokenOutId;
          tokenInReserve = getBalance tokenInId pool s;
          tokenOutReserve = getBalance tokenOutId pool s
      in calculateTokenOutAmountFromReserves tokenInReserve tokenOutReserve tokenInAmount)"

definition calculateTokenInAmount ::
    "'pk Primitives \<Rightarrow> TokenId \<Rightarrow> TokenId \<Rightarrow> Balance \<Rightarrow> 'pk State \<Rightarrow> Status
       \<Rightarrow> failure + Balance \<times> Status" where
  "calculateTokenInAmount P tokenInId tokenOutId tokenOutAmount s status =
     (let pool = PoolKey_fromTokenIdPair P tokenInId tokenOutId;
          tokenInReserve = getBalance tokenInId pool s;
          tokenOutReserve = getBalance tokenOutId pool s
      in calculateTokenInAmountFromReserves tokenInReserve tokenOutReserve tokenOutAmount
           status)"

definition sell ::
    "'pk Primitives \<Rightarrow> 'pk \<Rightarrow> TokenId \<Rightarrow> TokenId \<Rightarrow> Balance \<Rightarrow> Balance \<Rightarrow> 'pk State
       \<Rightarrow> failure option \<times> 'pk State" where
  "sell P sender tokenInId tokenOutId tokenInAmount minTokenOutAmount s =
     (let status0 = assertPoolExists P tokenInId tokenOutId s None;
          pool = PoolKey_fromTokenIdPair P tokenInId tokenOutId
      in case calculateTokenOutAmount P tokenInId tokenOutId tokenInAmount s of
           Inl e \<Rightarrow> (Some e, s)
         | Inr tokenOutAmount \<Rightarrow>
             (let isTokenOutAmountSufficient = (tokenOutAmount \<ge> minTokenOutAmount);
                  status1 = assert isTokenOutAmountSufficient
                              (Some errors_tokenOutAmountTooLow) status0
              in case transfer tokenInId sender pool tokenInAmount s of
                   (r1, s1) \<Rightarrow>
                     (case transfer tokenOutId pool sender tokenOutAmount s1 of
                        (r2, s2) \<Rightarrow>
                          outcome (recordResult r2 (recordResult r1 status1)) s s2)))"

definition buy ::
    "'pk Primitives \<Rightarrow> 'pk \<Rightarrow> TokenId \<Rightarrow> TokenId \<Rightarrow> Balance \<Rightarrow> Balance \<Rightarrow> 'pk State
       \<Rightarrow> failure option \<times> 'pk State" where
  "buy P sender tokenInId tokenOutId tokenOutAmount maxTokenInAmount s =
     (let status0 = assertPoolExists P tokenInId tokenOutId s None;
          pool = PoolKey_fromTokenIdPair P tokenInId tokenOutId
      in case calculateTokenInAmount P tokenInId tokenOutId tokenOutAmount s status0 of
           Inl e \<Rightarrow> (Some e, s)
         | Inr (tokenInAmount, status1) \<Rightarrow>
             (let isMaxTokenInAmountSufficient = (tokenInAmount \<le> maxTokenInAmount);
                  status2 = assert isMaxTokenInAmountSufficient
                              (Some errors_tokenInAmountTooHigh) status1
              in case transfer tokenOutId pool sender tokenOutAmount s of
                   (r1, s1) \<Rightarrow>
                     (case transfer tokenInId sender pool tokenInAmount s1 of
                        (r2, s2) \<Rightarrow>
                          outcome (recordResult r2 (recordResult r1 status2)) s s2)))"

subsection \<open>Calls and their commitment\<close>

text \<open>
  Modelled from the spec: the surrounding runtime (the decorator \<^verbatim>\<open>@runtimeMethod\<close>
  and the transaction context of the framework) runs one call at a time and commits its
  effects only if it succeeds; after a failed call, and after one that has thrown, the
  state is the one before the call.
\<close>

datatype 'pk Call =
    CreatePool 'pk TokenId TokenId Balance Balance
  | Sell 'pk TokenId TokenId Balance Balance
  | Buy 'pk TokenId TokenId Balance Balance

fun invoke :: "'pk Primitives \<Rightarrow> 'pk Call \<Rightarrow> 'pk State \<Rightarrow> failure option \<times> 'pk State" where
  "invoke P (CreatePool sender a b x y) s = createPool P sender a b x y s"
| "invoke P (Sell sender a b x y) s = sell P sender a b x y s"
| "invoke P (Buy sender a b x y) s = buy P sender a b x y s"

definition runtimeMethod ::
    "'pk Primitives \<Rightarrow> 'pk Call \<Rightarrow> 'pk State \<Rightarrow> failure option \<times> 'pk State" where
  "runtimeMethod P c s =
     (case invoke P c s of
        (None, s') \<Rightarrow> (None, s')
      | (Some e, s') \<Rightarrow> (Some e, s))"

fun runCalls :: "'pk Primitives \<Rightarrow> 'pk Call list \<Rightarrow> 'pk State \<Rightarrow> 'pk State" where
  "runCalls P [] s = s"
| "runCalls P (c # cs) s = runCalls P cs (snd (runtimeMethod P c s))"

subsection \<open>The fixture of the test suite\<close>

text \<open>
  A concrete instance on which the model can be evaluated: token identifiers 0 and 1 as
  in \<^verbatim>\<open>XYK.test.ts\<close>, addresses as natural numbers, and injective stand-ins for the
  hash functions. \<open>minted\<close> is the state after the two mints of the first test, with
  10000 units of each token for alice.
\<close>

definition testPrimitives :: "nat Primitives" where
  "testPrimitives =
     \<lparr>Poseidon_hash = (\<lambda>fs. case fs of [a, b] \<Rightarrow> 1000 + 10 * a + b | _ \<Rightarrow> 0),
      Poseidon_hashToGroup = (\<lambda>fs. case fs of [a, b] \<Rightarrow> (a, (b, 0)) | _ \<Rightarrow> (0, (0, 0))),
      PublicKey_fromGroup = (\<lambda>(x, y). 100 + 10 * x + y)\<rparr>"

definition alice :: nat where
  "alice = 7"

definition minted :: "nat State" where
  "minted =
     mint 1 alice 10000 (mint 0 alice 10000 \<lparr>pools = Map.empty, balances = Map.empty\<rparr>)"

text \<open>The state after the second test: alice has created the pool with 1000 and 2000.\<close>

definition seeded :: "nat State" where
  "seeded = snd (createPool testPrimitives alice 0 1 1000 2000 minted)"

section \<open>Theorems\<close>

subsection \<open>Auxiliary facts\<close>

lemmas fixture_defs =
  testPrimitives_def alice_def minted_def seeded_def mint_def setBalance_def getBalance_def
  transfer_def PoolKey_fromTokenIdPair_def LPTokenId_fromTokenIdPair_def TokenPair_from_def
  TokenPair_toFields_def poolExists_def assertPoolExists_def defaultPoolValue_def
  createPool_def assert_def recordFailure_def recordResult_def outcome_def

text \<open>The status of a call.\<close>

lemma recordFailure_not_None: "recordFailure f status \<noteq> None"
  by (simp add: recordFailure_def split: option.splits failure.splits)

lemma recordFailure_None: "recordFailure f None = Some f"
  by (simp add: recordFailure_def)

lemma recordFailure_no_message: "recordFailure f (Some (AssertFailed None)) = Some f"
  by (simp add: recordFailure_def)

lemma recordFailure_message:
  "recordFailure f (Some (AssertFailed (Some m))) = Some (AssertFailed (Some m))"
  by (simp add: recordFailure_def)

lemma assert_None_iff: "assert condition message status = None \<longleftrightarrow> condition \<and> status = None"
  by (simp add: assert_def recordFailure_not_None)

lemma assert_message:
  "assert condition message (Some (AssertFailed (Some m))) = Some (AssertFailed (Some m))"
  by (simp add: assert_def recordFailure_message)

lemma recordResult_None_iff: "recordResult r status = None \<longleftrightarrow> r = None \<and> status = None"
  by (simp add: recordResult_def recordFailure_not_None split: option.splits)

lemma recordResult_message:
  "recordResult r (Some (AssertFailed (Some m))) = Some (AssertFailed (Some m))"
  by (simp add: recordResult_def recordFailure_message split: option.splits)

lemma outcome_failed: "status \<noteq> None \<Longrightarrow> \<exists>f. outcome status s s' = (Some f, s)"
  by (auto simp add: outcome_def)

lemma recordResult_not_None: "status \<noteq> None \<Longrightarrow> recordResult r status \<noteq> None"
  by (simp add: recordResult_None_iff)

lemma assert_not_None: "status \<noteq> None \<Longrightarrow> assert condition message status \<noteq> None"
  by (simp add: assert_None_iff)

text \<open>The two pricing functions, case by case.\<close>

lemma calculateTokenOutAmountFromReserves_cases:
  "calculateTokenOutAmountFromReserves reserveIn reserveOut amountIn =
     (if reserveOut * amountIn < 2 ^ 64 \<and> reserveIn + amountIn < 2 ^ 64 \<and>
         0 < reserveIn + amountIn
      then Inr (reserveOut * amountIn div (reserveIn + amountIn))
      else Inl ArithmeticFault)"
  by (simp add: calculateTokenOutAmountFromReserves_def Balance_mul_def Balance_add_def
      Balance_div_def)

lemma calculateTokenInAmountFromReserves_cases:
  "calculateTokenInAmountFromReserves reserveIn reserveOut amountOut status =
     (if reserveOut + amountOut < 2 ^ 64 \<and> reserveIn * amountOut < 2 ^ 64 then
        (if amountOut = reserveOut \<or> reserveOut = 0
           then Inr (reserveIn * amountOut, recordFailure (AssertFailed None) status)
         else if amountOut < reserveOut
           then Inr (reserveIn * amountOut div (reserveOut - amountOut), status)
         else Inr (reserveIn * amountOut div reserveOut, status))
      else Inl ArithmeticFault)"
  by (auto simp add: calculateTokenInAmountFromReserves_def Balance_mul_def Balance_add_def
      Balance_sub_def Balance_div_def assert_def Let_def)

lemma calculateTokenInAmountFromReserves_status:
  assumes "calculateTokenInAmountFromReserves reserveIn reserveOut amountOut status
             = Inr (v, status')"
  shows "status' = status \<or> status' = recordFailure (AssertFailed None) status"
  using assms by (auto simp add: calculateTokenInAmountFromReserves_cases split: if_splits)

text \<open>The output amount grows with the input amount.\<close>

lemma out_amount_mono:
  fixes reserveIn reserveOut a1 a2 :: nat
  assumes "a1 \<le> a2" and "reserveIn + a1 > 0"
  shows "reserveOut * a1 div (reserveIn + a1) \<le> reserveOut * a2 div (reserveIn + a2)"
proof -
  define q where "q = reserveOut * a1 div (reserveIn + a1)"
  have q1: "q * (reserveIn + a1) \<le> reserveOut * a1"
    unfolding q_def by simp
  have "q * (reserveIn + a1) \<le> reserveOut * (reserveIn + a1)"
    using q1 by (meson le_trans mult_le_mono2 le_add2)
  then have q2: "q \<le> reserveOut"
    using assms(2) by auto
  obtain d where d: "a2 = a1 + d"
    using assms(1) le_Suc_ex by blast
  have "q * (reserveIn + a2) = q * (reserveIn + a1) + q * d"
    by (simp add: d algebra_simps)
  also have "\<dots> \<le> reserveOut * a1 + reserveOut * d"
    using q1 q2 by (simp add: add_mono)
  also have "\<dots> = reserveOut * a2"
    by (simp add: d algebra_simps)
  finally have "q * (reserveIn + a2) \<le> reserveOut * a2" .
  moreover have "reserveIn + a2 > 0"
    using assms by linarith
  ultimately show ?thesis
    unfolding q_def [symmetric] by (simp add: less_eq_div_iff_mult_less_eq)
qed

text \<open>Below the reserve, the input amount grows with the output amount.\<close>

lemma in_amount_mono_below:
  fixes reserveIn reserveOut a1 a2 :: nat
  assumes "a1 \<le> a2" and "a2 < reserveOut"
  shows "reserveIn * a1 div (reserveOut - a1) \<le> reserveIn * a2 div (reserveOut - a2)"
proof -
  have "reserveIn * a1 div (reserveOut - a1) \<le> reserveIn * a2 div (reserveOut - a1)"
    using assms(1) by (simp add: div_le_mono)
  also have "\<dots> \<le> reserveIn * a2 div (reserveOut - a2)"
    using assms by (intro div_le_mono2) simp_all
  finally show ?thesis .
qed

text \<open>The canonical pair, and with it the pool key, ignores the order of the tokens.\<close>

lemma TokenPair_from_commute: "TokenPair_from a b = TokenPair_from b a"
  by (cases a b rule: linorder_cases) (simp_all add: TokenPair_from_def)

lemma PoolKey_fromTokenIdPair_commute:
  "PoolKey_fromTokenIdPair P a b = PoolKey_fromTokenIdPair P b a"
  by (simp add: PoolKey_fromTokenIdPair_def TokenPair_from_commute [of a b])

text \<open>The ledger and the pools map.\<close>

lemma getBalance_setBalance:
  "getBalance t a (setBalance t' a' v s) = (if t = t' \<and> a = a' then v else getBalance t a s)"
  by (simp add: getBalance_def setBalance_def)

lemma pools_setBalance: "pools (setBalance t a v s) = pools s"
  by (simp add: setBalance_def)

lemma getBalance_pools_update: "getBalance t a (s\<lparr>pools := m\<rparr>) = getBalance t a s"
  by (simp add: getBalance_def)

lemma pools_mint: "pools (mint t a v s) = pools s"
  by (simp add: mint_def pools_setBalance)

lemma getBalance_mint:
  "getBalance t a (mint t' a' v s) =
     (if t = t' \<and> a = a' then getBalance t a s + v else getBalance t a s)"
  by (simp add: mint_def getBalance_setBalance)

lemma transfer_ok:
  assumes "transfer t from to amount s = (None, s')"
  shows "amount \<le> getBalance t from s"
    and "pools s' = pools s"
    and "from \<noteq> to \<Longrightarrow> getBalance t' a s' =
           (if t' = t \<and> a = from then getBalance t from s - amount
            else if t' = t \<and> a = to then getBalance t to s + amount
            else getBalance t' a s)"
  using assms
  by (auto simp add: transfer_def Let_def pools_setBalance getBalance_setBalance
      split: if_splits)

lemma createPool_ok:
  assumes "createPool P sender tokenInId tokenOutId tokenInAmount tokenOutAmount s = (None, s')"
  shows "tokenInId \<noteq> tokenOutId"
    and "\<not> poolExists P tokenInId tokenOutId s"
    and "\<exists>s1 s2.
           transfer tokenInId sender (PoolKey_fromTokenIdPair P tokenInId tokenOutId)
             tokenInAmount
             (s\<lparr>pools := (pools s)(PoolKey_fromTokenIdPair P tokenInId tokenOutId
                \<mapsto> defaultPoolValue)\<rparr>) = (None, s1) \<and>
           transfer tokenOutId sender (PoolKey_fromTokenIdPair P tokenInId tokenOutId)
             tokenOutAmount s1 = (None, s2) \<and>
           s' = mint (LPTokenId_fromTokenIdPair P tokenInId tokenOutId) sender tokenInAmount s2"
  using assms
  by (auto simp add: createPool_def Let_def outcome_def recordResult_None_iff assert_None_iff
      split: prod.splits option.splits)

lemma createPool_fixture:
  "createPool testPrimitives alice 0 1 1000 2000 minted = (None, seeded)"
  by (simp add: prod_eq_iff fixture_defs)

lemma poolExists_seeded: "poolExists testPrimitives 0 1 seeded"
  by (simp add: fixture_defs)

lemma calculate_seeded:
  "calculateTokenOutAmount testPrimitives 0 1 100 seeded = Inr 181"
  "calculateTokenInAmount testPrimitives 0 1 200 seeded None = Inr (111, None)"
  "calculateTokenInAmount testPrimitives 0 1 2000 seeded None
     = Inr (2000000, Some (AssertFailed None))"
  by (simp_all add: calculateTokenOutAmount_def calculateTokenInAmount_def fixture_defs
      calculateTokenOutAmountFromReserves_cases calculateTokenInAmountFromReserves_cases)

text \<open>No call removes an existence marker.\<close>

lemma pools_createPool_mono:
  "pools s k \<noteq> None \<Longrightarrow> pools (snd (createPool P sender a b x y s)) k \<noteq> None"
  by (auto simp add: createPool_def Let_def outcome_def pools_mint pools_setBalance
      transfer_def split: if_splits prod.splits option.splits)

lemma pools_sell: "pools (snd (sell P sender a b x y s)) = pools s"
  by (auto simp add: sell_def Let_def outcome_def pools_setBalance transfer_def
      split: if_splits prod.splits option.splits sum.splits)

lemma pools_buy: "pools (snd (buy P sender a b x y s)) = pools s"
  by (auto simp add: buy_def Let_def outcome_def pools_setBalance transfer_def
      split: if_splits prod.splits option.splits sum.splits)

lemma pools_runtimeMethod_mono:
  "pools s k \<noteq> None \<Longrightarrow> pools (snd (runtimeMethod P c s)) k \<noteq> None"
proof (cases c)
  case (CreatePool sender a b x y)
  then show "pools s k \<noteq> None \<Longrightarrow> ?thesis"
    using pools_createPool_mono [of s k P sender a b x y]
    by (auto simp add: runtimeMethod_def split: prod.splits option.splits)
next
  case (Sell sender a b x y)
  then show "pools s k \<noteq> None \<Longrightarrow> ?thesis"
    using pools_sell [of P sender a b x y s]
    by (auto simp add: runtimeMethod_def split: prod.splits option.splits)
next
  case (Buy sender a b x y)
  then show "pools s k \<noteq> None \<Longrightarrow> ?thesis"
    using pools_buy [of P sender a b x y s]
    by (auto simp add: runtimeMethod_def split: prod.splits option.splits)
qed

lemma pools_runCalls_mono:
  "pools s k \<noteq> None \<Longrightarrow> pools (runCalls P cs s) k \<noteq> None"
proof (induction cs arbitrary: s)
  case Nil
  then show ?case by simp
next
  case (Cons c cs)
  from Cons.prems have "pools (snd (runtimeMethod P c s)) k \<noteq> None"
    by (rule pools_runtimeMethod_mono)
  then have "pools (runCalls P cs (snd (runtimeMethod P c s))) k \<noteq> None"
    by (rule Cons.IH)
  then show ?case by simp
qed

lemma createPool_existing:
  assumes "tokenInId \<noteq> tokenOutId" and "poolExists P tokenInId tokenOutId s"
  shows "createPool P sender tokenInId tokenOutId x y s
           = (Some (AssertFailed (Some errors_poolExists)), s)"
  using assms
  by (simp add: createPool_def Let_def assert_def recordFailure_None recordResult_message
      outcome_def split: prod.splits)

lemma poolExists_commute: "poolExists P a b s = poolExists P b a s"
  by (simp add: poolExists_def PoolKey_fromTokenIdPair_commute)

text \<open>
  \<^verbatim>\<open>sell\<close> and \<^verbatim>\<open>buy\<close> run to their end once the price is computed: the result is
  the outcome of the status after the slippage assertion and the two transfers.
\<close>

lemma sell_run:
  assumes engine: "calculateTokenOutAmount P tokenInId tokenOutId tokenInAmount s = Inr v"
  shows "\<exists>r1 r2 s2. sell P sender tokenInId tokenOutId tokenInAmount minTokenOutAmount s
      = outcome (recordResult r2 (recordResult r1
          (assert (v \<ge> minTokenOutAmount) (Some errors_tokenOutAmountTooLow)
             (assertPoolExists P tokenInId tokenOutId s None)))) s s2"
  unfolding sell_def Let_def engine by (simp split: prod.splits) blast

lemma buy_run:
  assumes engine: "calculateTokenInAmount P tokenInId tokenOutId tokenOutAmount s
      (assertPoolExists P tokenInId tokenOutId s None) = Inr (w, status)"
  shows "\<exists>r1 r2 s2. buy P sender tokenInId tokenOutId tokenOutAmount maxTokenInAmount s
      = outcome (recordResult r2 (recordResult r1
          (assert (w \<le> maxTokenInAmount) (Some errors_tokenInAmountTooHigh) status))) s s2"
  unfolding buy_def Let_def engine by (simp split: prod.splits) blast

lemma buy_marked_failed:
  assumes engine: "calculateTokenInAmount P tokenInId tokenOutId tokenOutAmount s
      (assertPoolExists P tokenInId tokenOutId s None) = Inr (w, status)"
    and marked: "status \<noteq> None"
  shows "\<exists>f. buy P sender tokenInId tokenOutId tokenOutAmount maxTokenInAmount s = (Some f, s)"
proof -
  from buy_run [OF engine] obtain r1 r2 s2 where
    run: "buy P sender tokenInId tokenOutId tokenOutAmount maxTokenInAmount s
      = outcome (recordResult r2 (recordResult r1
          (assert (w \<le> maxTokenInAmount) (Some errors_tokenInAmountTooHigh) status))) s s2"
    by blast
  from marked have "recordResult r2 (recordResult r1
          (assert (w \<le> maxTokenInAmount) (Some errors_tokenInAmountTooHigh) status)) \<noteq> None"
    by (intro recordResult_not_None assert_not_None)
  from outcome_failed [OF this] run show ?thesis
    by simp
qed

lemma assertPoolExists_holds:
  "poolExists P tokenInId tokenOutId s \<Longrightarrow> assertPoolExists P tokenInId tokenOutId s None = None"
  by (simp add: assertPoolExists_def assert_def)

text \<open>
  What \<^verbatim>\<open>sell\<close> and \<^verbatim>\<open>buy\<close> answer where the pair has no existence marker,
  unless the price computation throws.
\<close>

lemma sell_without_pool:
  assumes "\<not> poolExists P tokenInId tokenOutId s"
    and "calculateTokenOutAmount P tokenInId tokenOutId x s = Inr v"
  shows "sell P sender tokenInId tokenOutId x y s
           = (Some (AssertFailed (Some errors_poolExists)), s)"
  using assms
  by (simp add: sell_def Let_def assertPoolExists_def assert_def recordFailure_None
      recordFailure_message recordResult_message outcome_def split: prod.splits)

lemma buy_without_pool:
  assumes "\<not> poolExists P tokenInId tokenOutId s"
    and "calculateTokenInAmount P tokenInId tokenOutId x s
           (Some (AssertFailed (Some errors_poolExists))) = Inr (v, status)"
  shows "buy P sender tokenInId tokenOutId x y s
           = (Some (AssertFailed (Some errors_poolExists)), s)"
proof -
  from assms(2) have "status = Some (AssertFailed (Some errors_poolExists))"
    using calculateTokenInAmountFromReserves_status recordFailure_message
    by (fastforce simp add: calculateTokenInAmount_def Let_def)
  with assms show ?thesis
    by (simp add: buy_def Let_def assertPoolExists_def assert_def recordFailure_None
        recordFailure_message recordResult_message outcome_def split: prod.splits)
qed

text \<open>
  The third and fourth test of \<^verbatim>\<open>XYK.test.ts\<close>: selling 100 of token 0 yields 181 of
  token 1, and buying 200 of token 1 then costs 135 of token 0.
\<close>

lemma test_suite_scenario:
  "fst (runtimeMethod testPrimitives (Sell alice 0 1 100 100) seeded) = None \<and>
   getBalance 0 alice (runCalls testPrimitives [Sell alice 0 1 100 100] seeded) = 8900 \<and>
   getBalance 1 alice (runCalls testPrimitives [Sell alice 0 1 100 100] seeded) = 8181 \<and>
   fst (runtimeMethod testPrimitives (Buy alice 0 1 200 10000)
          (runCalls testPrimitives [Sell alice 0 1 100 100] seeded)) = None \<and>
   getBalance 0 alice
     (runCalls testPrimitives [Sell alice 0 1 100 100, Buy alice 0 1 200 10000] seeded)
       = 8900 - 135 \<and>
   getBalance 1 alice
     (runCalls testPrimitives [Sell alice 0 1 100 100, Buy alice 0 1 200 10000] seeded)
       = 8181 + 200"
  by (simp add: runtimeMethod_def sell_def buy_def calculateTokenOutAmount_def
      calculateTokenInAmount_def calculateTokenOutAmountFromReserves_cases
      calculateTokenInAmountFromReserves_cases fixture_defs Let_def)

text \<open>
  Calls that fail after their first failed assertion: a \<^verbatim>\<open>buy\<close> of the whole reserve
  reports the slippage, or the transfer that the sender cannot pay, or no message at all;
  a \<^verbatim>\<open>sell\<close> of nothing to a pool that does not exist throws on the division.
\<close>

lemma calls_that_run_on:
  "fst (buy testPrimitives alice 0 1 2000 10000 seeded)
     = Some (AssertFailed (Some errors_tokenInAmountTooHigh))"
  "fst (buy testPrimitives alice 0 1 2000 3000000 seeded) = Some InsufficientBalance"
  "fst (buy testPrimitives alice 0 1 2000 2000000 (mint 0 alice 3000000 seeded))
     = Some (AssertFailed None)"
  "fst (sell testPrimitives alice 0 1 0 0 minted) = Some ArithmeticFault"
  by (simp_all add: sell_def buy_def calculateTokenOutAmount_def
      calculateTokenInAmount_def calculateTokenOutAmountFromReserves_cases
      calculateTokenInAmountFromReserves_cases fixture_defs Let_def)

subsection \<open>Identity derivation\<close>

text \<open>
  C1. The identity derivation does not depend on the direction of the pair:
  \<^verbatim>\<open>TokenPair.from\<close>, \<^verbatim>\<open>PoolKey.fromTokenIdPair\<close> and
  \<^verbatim>\<open>LPTokenId.fromTokenIdPair\<close> give the same result for \<open>(a, b)\<close> and \<open>(b, a)\<close>,
  for all token identifiers (distinct or not) and whatever the hash functions are.
\<close>

theorem identity_direction_independent:
  "TokenPair_from a b = TokenPair_from b a \<and>
   PoolKey_fromTokenIdPair P a b = PoolKey_fromTokenIdPair P b a \<and>
   LPTokenId_fromTokenIdPair P a b = LPTokenId_fromTokenIdPair P b a"
proof -
  have "TokenPair_from a b = TokenPair_from b a"
    by (cases a b rule: linorder_cases) (simp_all add: TokenPair_from_def)
  then show ?thesis
    by (simp add: PoolKey_fromTokenIdPair_def LPTokenId_fromTokenIdPair_def)
qed

subsection \<open>Pricing\<close>

text \<open>
  C2, as the claim states it, fails where the product leaves the 64 bits of a balance:
  with \<open>reserveIn = 0\<close> and \<open>reserveOut = amountIn = 2 ^ 32\<close> the denominator is
  positive and the quotient is \<open>2 ^ 32\<close>, but the product is \<open>2 ^ 64\<close> and the call
  throws.
\<close>

theorem calculateTokenOutAmountFromReserves_overflow:
  "(0::nat) + 4294967296 > 0 \<and>
   (4294967296 * 4294967296) div (0 + 4294967296) = (4294967296::nat) \<and>
   calculateTokenOutAmountFromReserves 0 4294967296 4294967296 \<noteq> Inr 4294967296 \<and>
   calculateTokenOutAmountFromReserves 0 4294967296 4294967296 = Inl ArithmeticFault"
  by (simp add: calculateTokenOutAmountFromReserves_cases)

text \<open>
  C2, amended. With \<open>reserveIn + amountIn > 0\<close>, and with the product
  \<open>reserveOut * amountIn\<close> and the sum \<open>reserveIn + amountIn\<close> below \<open>2 ^ 64\<close>,
  \<^verbatim>\<open>calculateTokenOutAmountFromReserves\<close> returns exactly the floor of
  \<open>reserveOut * amountIn / (reserveIn + amountIn)\<close>. When the product or the sum is not
  below \<open>2 ^ 64\<close>, the call throws.
\<close>

theorem calculateTokenOutAmountFromReserves_value:
  "(reserveIn + amountIn > 0 \<and> reserveOut * amountIn < 2 ^ 64 \<and>
    reserveIn + amountIn < 2 ^ 64 \<longrightarrow>
      calculateTokenOutAmountFromReserves reserveIn reserveOut amountIn =
        Inr ((reserveOut * amountIn) div (reserveIn + amountIn))) \<and>
   (\<not> (reserveOut * amountIn < 2 ^ 64 \<and> reserveIn + amountIn < 2 ^ 64) \<longrightarrow>
      calculateTokenOutAmountFromReserves reserveIn reserveOut amountIn
        = Inl ArithmeticFault)"
  by (simp add: calculateTokenOutAmountFromReserves_cases)

theorem calculateTokenOutAmountFromReserves_value_witness:
  "(1000::nat) + 100 > 0 \<and> (2000::nat) * 100 < 2 ^ 64 \<and> (1000::nat) + 100 < 2 ^ 64 \<and>
   calculateTokenOutAmountFromReserves 1000 2000 100 = Inr 181 \<and>
   \<not> ((9223372036854775808::nat) * 2 < 2 ^ 64) \<and>
   calculateTokenOutAmountFromReserves 1000 9223372036854775808 2 = Inl ArithmeticFault"
  using calculateTokenOutAmountFromReserves_value [of 1000 100 2000]
    calculateTokenOutAmountFromReserves_value [of 1000 2 9223372036854775808]
  by simp

text \<open>
  C10, as the claim states it, fails in the same way: with a zero tokenIn reserve,
  \<open>reserveOut = 2 ^ 32\<close> and the positive amount \<open>2 ^ 32\<close>, the call does not return
  \<open>reserveOut\<close> but throws, since the product is \<open>2 ^ 64\<close>.
\<close>

theorem zero_reserve_overflow:
  "(4294967296::nat) > 0 \<and>
   calculateTokenOutAmountFromReserves 0 4294967296 4294967296 = Inl ArithmeticFault \<and>
   Inl ArithmeticFault \<noteq> (Inr 4294967296 :: failure + Balance)"
  by (simp add: calculateTokenOutAmountFromReserves_cases)

text \<open>
  C10, amended. A pool whose tokenIn reserve is zero gives out its whole tokenOut reserve
  for any positive input amount whose product with that reserve is below \<open>2 ^ 64\<close>:
  \<^verbatim>\<open>calculateTokenOutAmountFromReserves(0, reserveOut, amountIn)\<close> returns
  \<open>reserveOut\<close>, without an error and without a minimum input. When the product is not
  below \<open>2 ^ 64\<close>, the call throws.
\<close>

theorem zero_reserve_gives_whole_reserve:
  "(amountIn > 0 \<and> amountIn < 2 ^ 64 \<and> reserveOut * amountIn < 2 ^ 64 \<longrightarrow>
      calculateTokenOutAmountFromReserves 0 reserveOut amountIn = Inr reserveOut) \<and>
   (\<not> reserveOut * amountIn < 2 ^ 64 \<longrightarrow>
      calculateTokenOutAmountFromReserves 0 reserveOut amountIn = Inl ArithmeticFault)"
  by (simp add: calculateTokenOutAmountFromReserves_cases)

theorem zero_reserve_gives_whole_reserve_witness:
  "(1::nat) > 0 \<and> (1::nat) < 2 ^ 64 \<and> (2000::nat) * 1 < 2 ^ 64 \<and>
   calculateTokenOutAmountFromReserves 0 2000 1 = Inr 2000 \<and>
   \<not> (9223372036854775808::nat) * 2 < 2 ^ 64 \<and>
   calculateTokenOutAmountFromReserves 0 9223372036854775808 2 = Inl ArithmeticFault"
  using zero_reserve_gives_whole_reserve [of 1 2000]
    zero_reserve_gives_whole_reserve [of 2 9223372036854775808]
  by simp

text \<open>
  C3, as the claim states it, fails where the product leaves the 64 bits of a balance:
  with \<open>reserveIn = 2 ^ 32\<close>, \<open>reserveOut = 2 ^ 33\<close> and \<open>amountOut = 2 ^ 32\<close> the
  amount does not exceed the reserve and the quotient is \<open>2 ^ 32\<close>, but the call throws.
  Where \<open>amountOut\<close> equals \<open>reserveOut\<close> the divisor of the claim is zero; the
  function divides by 1 instead, returns the product and marks the call as failed.
\<close>

theorem calculateTokenInAmountFromReserves_overflow:
  "(4294967296::nat) \<le> 8589934592 \<and>
   (4294967296 * 4294967296) div (8589934592 - 4294967296) = (4294967296::nat) \<and>
   calculateTokenInAmountFromReserves 4294967296 8589934592 4294967296 None
     = Inl ArithmeticFault \<and>
   (2000::nat) \<le> 2000 \<and>
   calculateTokenInAmountFromReserves 1000 2000 2000 None
     = Inr (2000000, Some (AssertFailed None))"
  by (simp add: calculateTokenInAmountFromReserves_cases recordFailure_None)

text \<open>
  C3, amended. Let the padded reserve \<open>reserveOut + amountOut\<close> and the product
  \<open>reserveIn * amountOut\<close> be below \<open>2 ^ 64\<close>. When \<open>amountOut\<close> is strictly below
  \<open>reserveOut\<close>, \<^verbatim>\<open>calculateTokenInAmountFromReserves\<close> returns the floor of
  \<open>reserveIn * amountOut / (reserveOut - amountOut)\<close>. When \<open>amountOut\<close> exceeds
  \<open>reserveOut\<close>, the padded reserve keeps the subtraction from underflowing and makes
  the denominator \<open>reserveOut\<close>, and with \<open>reserveOut > 0\<close> the result is the floor of
  \<open>reserveIn * amountOut / reserveOut\<close>. When \<open>amountOut\<close> equals \<open>reserveOut\<close>,
  the divisor is the substituted 1, the result is \<open>reserveIn * amountOut\<close> and the call
  is marked as failed. In all these cases an amount is returned; when the padded reserve
  or the product is not below \<open>2 ^ 64\<close>, the call throws.
\<close>

theorem calculateTokenInAmountFromReserves_value:
  "(reserveOut + amountOut < 2 ^ 64 \<and> reserveIn * amountOut < 2 ^ 64 \<longrightarrow>
      (amountOut < reserveOut \<longrightarrow>
         calculateTokenInAmountFromReserves reserveIn reserveOut amountOut status =
           Inr (reserveIn * amountOut div (reserveOut - amountOut), status)) \<and>
      (reserveOut < amountOut \<and> reserveOut > 0 \<longrightarrow>
         calculateTokenInAmountFromReserves reserveIn reserveOut amountOut status =
           Inr (reserveIn * amountOut div reserveOut, status)) \<and>
      (amountOut = reserveOut \<longrightarrow>
         calculateTokenInAmountFromReserves reserveIn reserveOut amountOut status =
           Inr (reserveIn * amountOut, recordFailure (AssertFailed None) status)) \<and>
      (\<exists>v status'.
         calculateTokenInAmountFromReserves reserveIn reserveOut amountOut status =
           Inr (v, status'))) \<and>
   (\<not> (reserveOut + amountOut < 2 ^ 64 \<and> reserveIn * amountOut < 2 ^ 64) \<longrightarrow>
      calculateTokenInAmountFromReserves reserveIn reserveOut amountOut status =
        Inl ArithmeticFault)"
  by (simp add: calculateTokenInAmountFromReserves_cases)

theorem calculateTokenInAmountFromReserves_value_witness:
  "(1819::nat) + 200 < 2 ^ 64 \<and> (1100::nat) * 200 < 2 ^ 64 \<and> (200::nat) < 1819 \<and>
   calculateTokenInAmountFromReserves 1100 1819 200 None = Inr (135, None) \<and>
   (10::nat) + 11 < 2 ^ 64 \<and> (10::nat) * 11 < 2 ^ 64 \<and> (10::nat) < 11 \<and> (10::nat) > 0 \<and>
   calculateTokenInAmountFromReserves 10 10 11 None = Inr (11, None) \<and>
   calculateTokenInAmountFromReserves 1000 2000 2000 None
     = Inr (2000000, Some (AssertFailed None)) \<and>
   \<not> (9223372036854775809::nat) + 9223372036854775808 < 2 ^ 64 \<and>
   calculateTokenInAmountFromReserves 1 9223372036854775809 9223372036854775808 None
     = Inl ArithmeticFault"
  using calculateTokenInAmountFromReserves_value [of 1819 200 1100 None]
    calculateTokenInAmountFromReserves_value [of 10 11 10 None]
    calculateTokenInAmountFromReserves_value [of 2000 2000 1000 None]
    calculateTokenInAmountFromReserves_value [of 9223372036854775809 9223372036854775808 1 None]
  by (simp add: recordFailure_None)

text \<open>
  C4, as the claim states it, fails where the padded reserve leaves the 64 bits of a
  balance: with \<open>reserveOut = 2 ^ 63 + 1\<close> and \<open>amountOut = 2 ^ 63\<close> the amount is not
  the reserve and the reserve is not zero, and yet the call fails: it throws on the
  padded reserve, which is computed in every case.
\<close>

theorem calculateTokenInAmountFromReserves_fault_off_reserve:
  "(9223372036854775808::nat) \<noteq> 9223372036854775809 \<and>
   (9223372036854775809::nat) \<noteq> 0 \<and>
   calculateTokenInAmountFromReserves 1 9223372036854775809 9223372036854775808 None
     = Inl ArithmeticFault"
  by (simp add: calculateTokenInAmountFromReserves_cases)

text \<open>
  C4, amended. Let the padded reserve \<open>reserveOut + amountOut\<close> and the product
  \<open>reserveIn * amountOut\<close> be below \<open>2 ^ 64\<close>. Then
  \<^verbatim>\<open>calculateTokenInAmountFromReserves\<close> marks the call as failed, on the assertion of
  \<open>denominatorIsSafe\<close> (the invariant violation), exactly when its denominator is zero,
  that is, exactly when \<open>amountOut = reserveOut\<close> or \<open>reserveOut = 0\<close>. It then
  divides by the substituted 1, so that it returns \<open>reserveIn * amountOut\<close> without an
  arithmetic fault, and the \<^verbatim>\<open>buy\<close> around it fails as a whole and changes nothing.
  When the padded reserve or the product is not below \<open>2 ^ 64\<close>, the call throws,
  whatever the denominator.
\<close>

theorem calculateTokenInAmountFromReserves_fails_iff:
  "(reserveOut + amountOut < 2 ^ 64 \<and> reserveIn * amountOut < 2 ^ 64 \<longrightarrow>
      (\<exists>v status'.
         calculateTokenInAmountFromReserves reserveIn reserveOut amountOut None
           = Inr (v, status') \<and>
         (status' = Some (AssertFailed None) \<longleftrightarrow> amountOut = reserveOut \<or> reserveOut = 0) \<and>
         (status' = None \<longleftrightarrow> \<not> (amountOut = reserveOut \<or> reserveOut = 0)) \<and>
         (amountOut = reserveOut \<or> reserveOut = 0 \<longrightarrow> v = reserveIn * amountOut))) \<and>
   (\<not> (reserveOut + amountOut < 2 ^ 64 \<and> reserveIn * amountOut < 2 ^ 64) \<longrightarrow>
      calculateTokenInAmountFromReserves reserveIn reserveOut amountOut None
        = Inl ArithmeticFault) \<and>
   (calculateTokenInAmount P tokenInId tokenOutId tokenOutAmount s
      (assertPoolExists P tokenInId tokenOutId s None) = Inr (w, status) \<and>
    status \<noteq> None \<longrightarrow>
      (\<exists>f. buy P sender tokenInId tokenOutId tokenOutAmount maxTokenInAmount s
              = (Some f, s)))"
proof (intro conjI impI)
  assume fit: "reserveOut + amountOut < 2 ^ 64 \<and> reserveIn * amountOut < 2 ^ 64"
  show "\<exists>v status'.
         calculateTokenInAmountFromReserves reserveIn reserveOut amountOut None
           = Inr (v, status') \<and>
         (status' = Some (AssertFailed None) \<longleftrightarrow> amountOut = reserveOut \<or> reserveOut = 0) \<and>
         (status' = None \<longleftrightarrow> \<not> (amountOut = reserveOut \<or> reserveOut = 0)) \<and>
         (amountOut = reserveOut \<or> reserveOut = 0 \<longrightarrow> v = reserveIn * amountOut)"
  proof (cases "amountOut = reserveOut \<or> reserveOut = 0")
    case True
    with fit have "calculateTokenInAmountFromReserves reserveIn reserveOut amountOut None
        = Inr (reserveIn * amountOut, Some (AssertFailed None))"
      by (simp add: calculateTokenInAmountFromReserves_cases recordFailure_None)
    with True show ?thesis
      by (intro exI [of _ "reserveIn * amountOut"] exI [of _ "Some (AssertFailed None)"])
        simp
  next
    case False
    define v where "v = (if amountOut < reserveOut
      then reserveIn * amountOut div (reserveOut - amountOut)
      else reserveIn * amountOut div reserveOut)"
    from fit False have "calculateTokenInAmountFromReserves reserveIn reserveOut amountOut None
        = Inr (v, None)"
      by (simp add: calculateTokenInAmountFromReserves_cases v_def)
    with False show ?thesis
      by (intro exI [of _ v] exI [of _ "None :: Status"]) simp
  qed
next
  assume "\<not> (reserveOut + amountOut < 2 ^ 64 \<and> reserveIn * amountOut < 2 ^ 64)"
  then show "calculateTokenInAmountFromReserves reserveIn reserveOut amountOut None
        = Inl ArithmeticFault"
    by (simp add: calculateTokenInAmountFromReserves_cases)
next
  assume "calculateTokenInAmount P tokenInId tokenOutId tokenOutAmount s
      (assertPoolExists P tokenInId tokenOutId s None) = Inr (w, status) \<and> status \<noteq> None"
  then have engine: "calculateTokenInAmount P tokenInId tokenOutId tokenOutAmount s
      (assertPoolExists P tokenInId tokenOutId s None) = Inr (w, status)"
    and marked: "status \<noteq> None"
    by blast+
  from buy_marked_failed [OF engine marked]
  show "\<exists>f. buy P sender tokenInId tokenOutId tokenOutAmount maxTokenInAmount s
              = (Some f, s)" .
qed

theorem calculateTokenInAmountFromReserves_fails_iff_witness:
  "(2000::nat) + 2000 < 2 ^ 64 \<and> (1000::nat) * 2000 < 2 ^ 64 \<and>
   calculateTokenInAmountFromReserves 1000 2000 2000 None
     = Inr (1000 * 2000, Some (AssertFailed None)) \<and>
   (\<exists>v. calculateTokenInAmountFromReserves 1000 2000 5 None = Inr (v, None)) \<and>
   calculateTokenInAmount testPrimitives 0 1 2000 seeded
     (assertPoolExists testPrimitives 0 1 seeded None)
     = Inr (2000000, Some (AssertFailed None)) \<and>
   (\<exists>f. buy testPrimitives alice 0 1 2000 3000000 seeded = (Some f, seeded))"
proof -
  have fit: "(2000::nat) + 2000 < 2 ^ 64 \<and> (1000::nat) * 2000 < 2 ^ 64"
    and fit': "(2000::nat) + 5 < 2 ^ 64 \<and> (1000::nat) * 5 < 2 ^ 64"
    by simp_all
  from calculateTokenInAmountFromReserves_fails_iff [THEN conjunct1, of 2000 2000 1000] fit
  have at_reserve: "calculateTokenInAmountFromReserves 1000 2000 2000 None
     = Inr (1000 * 2000, Some (AssertFailed None))"
    by auto
  from calculateTokenInAmountFromReserves_fails_iff [THEN conjunct1, of 2000 5 1000] fit'
  have below: "\<exists>v. calculateTokenInAmountFromReserves 1000 2000 5 None = Inr (v, None)"
    by auto
  have engine: "calculateTokenInAmount testPrimitives 0 1 2000 seeded
     (assertPoolExists testPrimitives 0 1 seeded None)
     = Inr (2000000, Some (AssertFailed None))"
    unfolding assertPoolExists_holds [OF poolExists_seeded] by (rule calculate_seeded(3))
  from calculateTokenInAmountFromReserves_fails_iff
    [where P = testPrimitives and tokenInId = 0 and tokenOutId = 1 and tokenOutAmount = 2000
       and s = seeded and w = 2000000 and status = "Some (AssertFailed None)"
       and sender = alice and maxTokenInAmount = 3000000,
     THEN conjunct2, THEN conjunct2] engine
  have whole: "\<exists>f. buy testPrimitives alice 0 1 2000 3000000 seeded = (Some f, seeded)"
    by simp
  from fit at_reserve below engine whole show ?thesis
    by blast
qed

text \<open>
  C9, as the claim states it, fails for \<^verbatim>\<open>calculateTokenInAmountFromReserves\<close>: with
  both reserves 10, the amounts 9 and 11 both succeed, and the larger one costs less (11
  against 90), since 11 exceeds the reserve and is priced on the padded reserve.
\<close>

theorem calculateTokenInAmountFromReserves_not_monotone:
  "(9::nat) \<le> 11 \<and>
   calculateTokenInAmountFromReserves 10 10 9 None = Inr (90, None) \<and>
   calculateTokenInAmountFromReserves 10 10 11 None = Inr (11, None) \<and>
   \<not> (90::nat) \<le> 11"
  by (simp add: calculateTokenInAmountFromReserves_cases)

text \<open>
  C9, amended. For fixed reserves, \<^verbatim>\<open>calculateTokenOutAmountFromReserves\<close> is
  non-decreasing in \<open>amountIn\<close> over the amounts for which it returns: if it returns for
  \<open>a1\<close> and for \<open>a2\<close>, and \<open>a1 \<le> a2\<close>, the amount for \<open>a1\<close> is not greater.
  \<^verbatim>\<open>calculateTokenInAmountFromReserves\<close> is non-decreasing in \<open>amountOut\<close> among
  the amounts below \<open>reserveOut\<close> for which it returns, and among those above
  \<open>reserveOut\<close>: if it returns for \<open>a1\<close> and for \<open>a2\<close>, and \<open>a1 \<le> a2\<close> lie on the
  same side of \<open>reserveOut\<close>, the amount for \<open>a1\<close> is not greater.
\<close>

theorem swap_monotone:
  "(a1 \<le> a2 \<and> calculateTokenOutAmountFromReserves reserveIn reserveOut a1 = Inr v1 \<and>
    calculateTokenOutAmountFromReserves reserveIn reserveOut a2 = Inr v2 \<longrightarrow> v1 \<le> v2) \<and>
   (a1 \<le> a2 \<and> (a2 < reserveOut \<or> reserveOut < a1) \<and>
    calculateTokenInAmountFromReserves reserveIn reserveOut a1 status = Inr (w1, status1) \<and>
    calculateTokenInAmountFromReserves reserveIn reserveOut a2 status = Inr (w2, status2)
      \<longrightarrow> w1 \<le> w2)"
proof (intro conjI impI)
  assume h: "a1 \<le> a2 \<and> calculateTokenOutAmountFromReserves reserveIn reserveOut a1 = Inr v1 \<and>
    calculateTokenOutAmountFromReserves reserveIn reserveOut a2 = Inr v2"
  then have pos: "reserveIn + a1 > 0" and v1: "v1 = reserveOut * a1 div (reserveIn + a1)"
    and v2: "v2 = reserveOut * a2 div (reserveIn + a2)"
    by (auto simp add: calculateTokenOutAmountFromReserves_cases split: if_splits)
  show "v1 \<le> v2"
    unfolding v1 v2 using h pos by (intro out_amount_mono) simp_all
next
  assume h: "a1 \<le> a2 \<and> (a2 < reserveOut \<or> reserveOut < a1) \<and>
    calculateTokenInAmountFromReserves reserveIn reserveOut a1 status = Inr (w1, status1) \<and>
    calculateTokenInAmountFromReserves reserveIn reserveOut a2 status = Inr (w2, status2)"
  then have le: "a1 \<le> a2" and side: "a2 < reserveOut \<or> reserveOut < a1"
    and r1: "calculateTokenInAmountFromReserves reserveIn reserveOut a1 status
               = Inr (w1, status1)"
    and r2: "calculateTokenInAmountFromReserves reserveIn reserveOut a2 status
               = Inr (w2, status2)"
    by simp_all
  from side show "w1 \<le> w2"
  proof
    assume below: "a2 < reserveOut"
    with le r1 r2 have "w1 = reserveIn * a1 div (reserveOut - a1)"
      and "w2 = reserveIn * a2 div (reserveOut - a2)"
      by (auto simp add: calculateTokenInAmountFromReserves_cases split: if_splits)
    with le below show ?thesis
      by (simp add: in_amount_mono_below)
  next
    assume above: "reserveOut < a1"
    show ?thesis
    proof (cases "reserveOut = 0")
      case True
      with r1 r2 have "w1 = reserveIn * a1" and "w2 = reserveIn * a2"
        by (auto simp add: calculateTokenInAmountFromReserves_cases split: if_splits)
      with le show ?thesis by simp
    next
      case False
      with above le r1 r2 have "w1 = reserveIn * a1 div reserveOut"
        and "w2 = reserveIn * a2 div reserveOut"
        by (auto simp add: calculateTokenInAmountFromReserves_cases split: if_splits)
      with le show ?thesis by (simp add: div_le_mono)
    qed
  qed
qed

theorem swap_monotone_witness:
  "(100::nat) \<le> 200 \<and> calculateTokenOutAmountFromReserves 1000 2000 100 = Inr 181 \<and>
   calculateTokenOutAmountFromReserves 1000 2000 200 = Inr 333 \<and> (181::nat) \<le> 333 \<and>
   (200::nat) < 2000 \<and>
   calculateTokenInAmountFromReserves 1000 2000 100 None = Inr (52, None) \<and>
   calculateTokenInAmountFromReserves 1000 2000 200 None = Inr (111, None) \<and>
   (52::nat) \<le> 111"
proof -
  have out: "(100::nat) \<le> 200 \<and> calculateTokenOutAmountFromReserves 1000 2000 100 = Inr 181 \<and>
      calculateTokenOutAmountFromReserves 1000 2000 200 = Inr 333"
    by (simp add: calculateTokenOutAmountFromReserves_cases)
  have inp: "(100::nat) \<le> 200 \<and> ((200::nat) < 2000 \<or> (2000::nat) < 100) \<and>
      calculateTokenInAmountFromReserves 1000 2000 100 None = Inr (52, None) \<and>
      calculateTokenInAmountFromReserves 1000 2000 200 None = Inr (111, None)"
    by (simp add: calculateTokenInAmountFromReserves_cases)
  note mono = swap_monotone [of 100 200 1000 2000 181 333 None 52 None 111 None]
  from mono out have A: "(181::nat) \<le> 333"
    by blast
  from mono inp have B: "(52::nat) \<le> 111"
    by blast
  from A B out inp show ?thesis by simp
qed

subsection \<open>The runtime methods\<close>

text \<open>
  C5. A successful \<^verbatim>\<open>createPool\<close> inserts the existence marker for the pool key of
  the pair, transfers \<open>amountInSeed\<close> of \<open>tokenInId\<close> and \<open>amountOutSeed\<close> of
  \<open>tokenOutId\<close> from the caller to the pool account, and mints exactly
  \<open>amountInSeed\<close> units of the LP token to the caller. Where the caller is not the pool
  account and the LP token is neither token of the pair, the balances after the call are
  the ones before it with these five changes and no other.
\<close>

theorem createPool_effects:
  fixes P :: "'pk Primitives"
  assumes ok: "createPool P sender tokenInId tokenOutId amountInSeed amountOutSeed s = (None, s')"
  defines "pool \<equiv> PoolKey_fromTokenIdPair P tokenInId tokenOutId"
      and "lp \<equiv> LPTokenId_fromTokenIdPair P tokenInId tokenOutId"
  shows "pools s' = (pools s)(pool \<mapsto> defaultPoolValue) \<and>
         (\<exists>s1 s2.
            transfer tokenInId sender pool amountInSeed
              (s\<lparr>pools := (pools s)(pool \<mapsto> defaultPoolValue)\<rparr>) = (None, s1) \<and>
            transfer tokenOutId sender pool amountOutSeed s1 = (None, s2) \<and>
            s' = mint lp sender amountInSeed s2) \<and>
         (sender \<noteq> pool \<and> lp \<noteq> tokenInId \<and> lp \<noteq> tokenOutId \<longrightarrow>
            amountInSeed \<le> getBalance tokenInId sender s \<and>
            amountOutSeed \<le> getBalance tokenOutId sender s \<and>
            (\<forall>t a. getBalance t a s' =
               (if t = tokenInId \<and> a = sender
                  then getBalance tokenInId sender s - amountInSeed
                else if t = tokenInId \<and> a = pool
                  then getBalance tokenInId pool s + amountInSeed
                else if t = tokenOutId \<and> a = sender
                  then getBalance tokenOutId sender s - amountOutSeed
                else if t = tokenOutId \<and> a = pool
                  then getBalance tokenOutId pool s + amountOutSeed
                else if t = lp \<and> a = sender
                  then getBalance lp sender s + amountInSeed
                else getBalance t a s)))"
proof -
  let ?s0 = "s\<lparr>pools := (pools s)(pool \<mapsto> defaultPoolValue)\<rparr>"
  from createPool_ok(3) [OF ok] obtain s1 s2 where
    t1: "transfer tokenInId sender pool amountInSeed ?s0 = (None, s1)" and
    t2: "transfer tokenOutId sender pool amountOutSeed s1 = (None, s2)" and
    s': "s' = mint lp sender amountInSeed s2"
    unfolding pool_def lp_def by blast
  have distinct: "tokenInId \<noteq> tokenOutId"
    by (rule createPool_ok(1) [OF ok])
  have "pools s' = pools ?s0"
    by (simp add: s' pools_mint transfer_ok(2) [OF t2] transfer_ok(2) [OF t1])
  then have marker: "pools s' = (pools s)(pool \<mapsto> defaultPoolValue)"
    by simp
  have calls: "\<exists>s1 s2. transfer tokenInId sender pool amountInSeed ?s0 = (None, s1) \<and>
            transfer tokenOutId sender pool amountOutSeed s1 = (None, s2) \<and>
            s' = mint lp sender amountInSeed s2"
    using t1 t2 s' by blast
  have ledger: "amountInSeed \<le> getBalance tokenInId sender s \<and>
            amountOutSeed \<le> getBalance tokenOutId sender s \<and>
            (\<forall>t a. getBalance t a s' =
               (if t = tokenInId \<and> a = sender
                  then getBalance tokenInId sender s - amountInSeed
                else if t = tokenInId \<and> a = pool
                  then getBalance tokenInId pool s + amountInSeed
                else if t = tokenOutId \<and> a = sender
                  then getBalance tokenOutId sender s - amountOutSeed
                else if t = tokenOutId \<and> a = pool
                  then getBalance tokenOutId pool s + amountOutSeed
                else if t = lp \<and> a = sender
                  then getBalance lp sender s + amountInSeed
                else getBalance t a s))"
    if neq: "sender \<noteq> pool" and lp1: "lp \<noteq> tokenInId" and lp2: "lp \<noteq> tokenOutId"
  proof -
    have b1: "getBalance t a s1 =
           (if t = tokenInId \<and> a = sender then getBalance tokenInId sender s - amountInSeed
            else if t = tokenInId \<and> a = pool then getBalance tokenInId pool s + amountInSeed
            else getBalance t a s)" for t a
      using transfer_ok(3) [OF t1 neq, of t a] by (simp add: getBalance_pools_update)
    have b2: "getBalance t a s2 =
           (if t = tokenOutId \<and> a = sender then getBalance tokenOutId sender s1 - amountOutSeed
            else if t = tokenOutId \<and> a = pool then getBalance tokenOutId pool s1 + amountOutSeed
            else getBalance t a s1)" for t a
      using transfer_ok(3) [OF t2 neq, of t a] by simp
    have le1: "amountInSeed \<le> getBalance tokenInId sender s"
      using transfer_ok(1) [OF t1] by (simp add: getBalance_pools_update)
    have le2: "amountOutSeed \<le> getBalance tokenOutId sender s"
      using transfer_ok(1) [OF t2] distinct by (simp add: b1)
    have "getBalance t a s' =
               (if t = tokenInId \<and> a = sender
                  then getBalance tokenInId sender s - amountInSeed
                else if t = tokenInId \<and> a = pool
                  then getBalance tokenInId pool s + amountInSeed
                else if t = tokenOutId \<and> a = sender
                  then getBalance tokenOutId sender s - amountOutSeed
                else if t = tokenOutId \<and> a = pool
                  then getBalance tokenOutId pool s + amountOutSeed
                else if t = lp \<and> a = sender
                  then getBalance lp sender s + amountInSeed
                else getBalance t a s)" for t a
      using distinct neq lp1 lp2 by (simp add: s' getBalance_mint b2 b1)
    with le1 le2 show ?thesis by blast
  qed
  from marker calls ledger show ?thesis by blast
qed

theorem createPool_effects_witness:
  "createPool testPrimitives alice 0 1 1000 2000 minted = (None, seeded) \<and>
   PoolKey_fromTokenIdPair testPrimitives 0 1 = 110 \<and>
   LPTokenId_fromTokenIdPair testPrimitives 0 1 = 1010 \<and>
   pools seeded 110 = Some defaultPoolValue \<and>
   getBalance 0 alice seeded = 9000 \<and> getBalance 0 110 seeded = 1000 \<and>
   getBalance 1 alice seeded = 8000 \<and> getBalance 1 110 seeded = 2000 \<and>
   getBalance 1010 alice seeded = 1000"
proof -
  have key: "PoolKey_fromTokenIdPair testPrimitives 0 1 = 110"
    and lp: "LPTokenId_fromTokenIdPair testPrimitives 0 1 = 1010"
    by (simp_all add: fixture_defs)
  have before: "getBalance 0 alice minted = 10000" "getBalance 1 alice minted = 10000"
    "getBalance 0 110 minted = 0" "getBalance 1 110 minted = 0"
    "getBalance 1010 alice minted = 0"
    by (simp_all add: fixture_defs)
  have other: "alice \<noteq> 110"
    by (simp add: alice_def)
  note effects = createPool_effects [OF createPool_fixture, unfolded key lp]
  from effects have marker: "pools seeded 110 = Some defaultPoolValue"
    by simp
  from effects other have "\<forall>t a. getBalance t a seeded =
       (if t = 0 \<and> a = alice then getBalance 0 alice minted - 1000
        else if t = 0 \<and> a = 110 then getBalance 0 110 minted + 1000
        else if t = 1 \<and> a = alice then getBalance 1 alice minted - 2000
        else if t = 1 \<and> a = 110 then getBalance 1 110 minted + 2000
        else if t = 1010 \<and> a = alice then getBalance 1010 alice minted + 1000
        else getBalance t a minted)"
    by simp
  with other have "getBalance 0 alice seeded = 9000" "getBalance 0 110 seeded = 1000"
    "getBalance 1 alice seeded = 8000" "getBalance 1 110 seeded = 2000"
    "getBalance 1010 alice seeded = 1000"
    by (simp_all add: before before [unfolded One_nat_def])
  with createPool_fixture key lp marker show ?thesis
    by blast
qed

text \<open>
  C6. \<^verbatim>\<open>createPool(a, a, ...)\<close> always fails with the message of matching tokens
  (the IdenticalTokens error). After a successful \<^verbatim>\<open>createPool(a, b, ...)\<close>, and
  after any further calls of the three methods, \<^verbatim>\<open>createPool\<close> for \<open>(a, b)\<close> and
  for \<open>(b, a)\<close> fails with the message of an existing pool (the PoolAlreadyExists
  error), by any caller and with any amounts, and changes nothing.
\<close>

theorem createPool_refusals:
  "createPool P sender a a x y s = (Some (AssertFailed (Some errors_tokensMatch)), s) \<and>
   (createPool P sender a b x y s = (None, s1) \<longrightarrow>
      (\<forall>calls sender' x' y'.
         createPool P sender' a b x' y' (runCalls P calls s1)
           = (Some (AssertFailed (Some errors_poolExists)), runCalls P calls s1) \<and>
         createPool P sender' b a x' y' (runCalls P calls s1)
           = (Some (AssertFailed (Some errors_poolExists)), runCalls P calls s1)))"
proof (intro conjI impI allI)
  show "createPool P sender a a x y s = (Some (AssertFailed (Some errors_tokensMatch)), s)"
    by (simp add: createPool_def Let_def assert_def recordFailure_None recordFailure_message
        recordResult_message outcome_def split: prod.splits)
next
  fix calls :: "'a Call list" and sender' x' y'
  assume ok: "createPool P sender a b x y s = (None, s1)"
  have neq: "a \<noteq> b" by (rule createPool_ok(1) [OF ok])
  from createPool_ok(3) [OF ok] obtain t1 t2 where
    t1: "transfer a sender (PoolKey_fromTokenIdPair P a b) x
           (s\<lparr>pools := (pools s)(PoolKey_fromTokenIdPair P a b \<mapsto> defaultPoolValue)\<rparr>) = (None, t1)"
    and t2: "transfer b sender (PoolKey_fromTokenIdPair P a b) y t1 = (None, t2)"
    and s1: "s1 = mint (LPTokenId_fromTokenIdPair P a b) sender x t2"
    by blast
  have "pools s1 (PoolKey_fromTokenIdPair P a b) \<noteq> None"
    by (simp add: s1 pools_mint transfer_ok(2) [OF t2] transfer_ok(2) [OF t1])
  then have "pools (runCalls P calls s1) (PoolKey_fromTokenIdPair P a b) \<noteq> None"
    by (rule pools_runCalls_mono)
  then have ex: "poolExists P a b (runCalls P calls s1)"
    by (simp add: poolExists_def)
  then have ex': "poolExists P b a (runCalls P calls s1)"
    by (simp add: poolExists_commute)
  show "createPool P sender' a b x' y' (runCalls P calls s1)
           = (Some (AssertFailed (Some errors_poolExists)), runCalls P calls s1)"
    using neq ex by (rule createPool_existing)
  show "createPool P sender' b a x' y' (runCalls P calls s1)
           = (Some (AssertFailed (Some errors_poolExists)), runCalls P calls s1)"
    using neq [symmetric] ex' by (rule createPool_existing)
qed

theorem createPool_refusals_witness:
  "createPool testPrimitives alice 0 1 1000 2000 minted = (None, seeded) \<and>
   fst (createPool testPrimitives alice 1 0 5 5
     (runCalls testPrimitives [Sell alice 0 1 100 100, Buy alice 0 1 200 10000] seeded))
     = Some (AssertFailed (Some errors_poolExists)) \<and>
   fst (createPool testPrimitives alice 0 1 5 5
     (runCalls testPrimitives [Sell alice 0 1 100 100, Buy alice 0 1 200 10000] seeded))
     = Some (AssertFailed (Some errors_poolExists))"
proof -
  let ?calls = "[Sell alice 0 1 100 100, Buy alice 0 1 200 10000]"
  from createPool_fixture
    createPool_refusals [of testPrimitives alice 0 1000 2000 minted 1 seeded]
  have "\<forall>calls sender' x' y'.
         createPool testPrimitives sender' 0 1 x' y' (runCalls testPrimitives calls seeded)
           = (Some (AssertFailed (Some errors_poolExists)), runCalls testPrimitives calls seeded) \<and>
         createPool testPrimitives sender' 1 0 x' y' (runCalls testPrimitives calls seeded)
           = (Some (AssertFailed (Some errors_poolExists)), runCalls testPrimitives calls seeded)"
    by blast
  then have
    "createPool testPrimitives alice 0 1 5 5 (runCalls testPrimitives ?calls seeded)
       = (Some (AssertFailed (Some errors_poolExists)), runCalls testPrimitives ?calls seeded) \<and>
     createPool testPrimitives alice 1 0 5 5 (runCalls testPrimitives ?calls seeded)
       = (Some (AssertFailed (Some errors_poolExists)), runCalls testPrimitives ?calls seeded)"
    by blast
  with createPool_fixture show ?thesis
    by (simp only: fst_conv simp_thms)
qed

text \<open>
  C8. In a state where the pool exists, a \<^verbatim>\<open>sell\<close> whose \<open>minTokenOutAmount\<close> is
  greater than the computed output fails with the message of a too low output amount, and
  a \<^verbatim>\<open>buy\<close> whose \<open>maxTokenInAmount\<close> is less than the computed input fails with
  the message of a too high input amount (both the SlippageExceeded error), also where the
  computed input is the one of a zero denominator; the state after the failed call, and
  so every balance, is the one before it.
\<close>

theorem slippage_enforced:
  "(poolExists P tokenInId tokenOutId s \<and>
    calculateTokenOutAmount P tokenInId tokenOutId tokenInAmount s = Inr computed \<and>
    computed < minTokenOutAmount \<longrightarrow>
      sell P sender tokenInId tokenOutId tokenInAmount minTokenOutAmount s
        = (Some (AssertFailed (Some errors_tokenOutAmountTooLow)), s) \<and>
      runtimeMethod P (Sell sender tokenInId tokenOutId tokenInAmount minTokenOutAmount) s
        = (Some (AssertFailed (Some errors_tokenOutAmountTooLow)), s)) \<and>
   (poolExists P tokenInId tokenOutId s \<and>
    calculateTokenInAmount P tokenInId tokenOutId tokenOutAmount s None
      = Inr (computed', status) \<and>
    maxTokenInAmount < computed' \<longrightarrow>
      buy P sender tokenInId tokenOutId tokenOutAmount maxTokenInAmount s
        = (Some (AssertFailed (Some errors_tokenInAmountTooHigh)), s) \<and>
      runtimeMethod P (Buy sender tokenInId tokenOutId tokenOutAmount maxTokenInAmount) s
        = (Some (AssertFailed (Some errors_tokenInAmountTooHigh)), s))"
proof (intro conjI impI)
  assume h: "poolExists P tokenInId tokenOutId s \<and>
    calculateTokenOutAmount P tokenInId tokenOutId tokenInAmount s = Inr computed \<and>
    computed < minTokenOutAmount"
  then have exists: "assertPoolExists P tokenInId tokenOutId s None = None"
    by (simp add: assertPoolExists_holds)
  from h have engine: "calculateTokenOutAmount P tokenInId tokenOutId tokenInAmount s
      = Inr computed"
    by simp
  from h have slipped: "assert (computed \<ge> minTokenOutAmount)
      (Some errors_tokenOutAmountTooLow) None
        = Some (AssertFailed (Some errors_tokenOutAmountTooLow))"
    by (simp add: assert_def recordFailure_None)
  from sell_run [OF engine, of sender minTokenOutAmount]
  show sell: "sell P sender tokenInId tokenOutId tokenInAmount minTokenOutAmount s
        = (Some (AssertFailed (Some errors_tokenOutAmountTooLow)), s)"
    by (auto simp add: exists slipped recordResult_message outcome_def)
  then show "runtimeMethod P
      (Sell sender tokenInId tokenOutId tokenInAmount minTokenOutAmount) s
        = (Some (AssertFailed (Some errors_tokenOutAmountTooLow)), s)"
    by (simp add: runtimeMethod_def)
next
  assume h: "poolExists P tokenInId tokenOutId s \<and>
    calculateTokenInAmount P tokenInId tokenOutId tokenOutAmount s None
      = Inr (computed', status) \<and>
    maxTokenInAmount < computed'"
  then have exists: "assertPoolExists P tokenInId tokenOutId s None = None"
    by (simp add: assertPoolExists_holds)
  from h have engine: "calculateTokenInAmount P tokenInId tokenOutId tokenOutAmount s
      (assertPoolExists P tokenInId tokenOutId s None) = Inr (computed', status)"
    by (simp add: exists)
  from h have "calculateTokenInAmountFromReserves
      (getBalance tokenInId (PoolKey_fromTokenIdPair P tokenInId tokenOutId) s)
      (getBalance tokenOutId (PoolKey_fromTokenIdPair P tokenInId tokenOutId) s)
      tokenOutAmount None = Inr (computed', status)"
    by (simp add: calculateTokenInAmount_def Let_def)
  from calculateTokenInAmountFromReserves_status [OF this]
  have "status = None \<or> status = Some (AssertFailed None)"
    by (simp add: recordFailure_None)
  with h have slipped: "assert (computed' \<le> maxTokenInAmount)
      (Some errors_tokenInAmountTooHigh) status
        = Some (AssertFailed (Some errors_tokenInAmountTooHigh))"
    by (auto simp add: assert_def recordFailure_None recordFailure_no_message)
  from buy_run [OF engine, of sender maxTokenInAmount]
  show buy: "buy P sender tokenInId tokenOutId tokenOutAmount maxTokenInAmount s
        = (Some (AssertFailed (Some errors_tokenInAmountTooHigh)), s)"
    by (auto simp add: slipped recordResult_message outcome_def)
  then show "runtimeMethod P
      (Buy sender tokenInId tokenOutId tokenOutAmount maxTokenInAmount) s
        = (Some (AssertFailed (Some errors_tokenInAmountTooHigh)), s)"
    by (simp add: runtimeMethod_def)
qed

theorem slippage_enforced_witness:
  "poolExists testPrimitives 0 1 seeded \<and>
   calculateTokenOutAmount testPrimitives 0 1 100 seeded = Inr 181 \<and>
   sell testPrimitives alice 0 1 100 182 seeded
     = (Some (AssertFailed (Some errors_tokenOutAmountTooLow)), seeded) \<and>
   calculateTokenInAmount testPrimitives 0 1 200 seeded None = Inr (111, None) \<and>
   buy testPrimitives alice 0 1 200 110 seeded
     = (Some (AssertFailed (Some errors_tokenInAmountTooHigh)), seeded) \<and>
   calculateTokenInAmount testPrimitives 0 1 2000 seeded None
     = Inr (2000000, Some (AssertFailed None)) \<and>
   buy testPrimitives alice 0 1 2000 10000 seeded
     = (Some (AssertFailed (Some errors_tokenInAmountTooHigh)), seeded)"
  using poolExists_seeded calculate_seeded
    slippage_enforced [of testPrimitives 0 1 seeded 100 181 182 alice 200 111 None 110]
    slippage_enforced [of testPrimitives 0 1 seeded 100 181 182 alice 2000 2000000
      "Some (AssertFailed None)" 10000]
  by simp

text \<open>
  C7. Without an existence marker for the pair, \<^verbatim>\<open>sell\<close> and \<^verbatim>\<open>buy\<close> fail, but
  with the message \<^verbatim>\<open>errors.poolExists()\<close>, the one that \<^verbatim>\<open>createPool\<close> gives for
  a pool that exists: \<^verbatim>\<open>assertPoolExists\<close> passes that message to its assertion, and
  the table \<^verbatim>\<open>errors\<close> has no message for a pool that does not exist. Evaluated on
  the fixture, before and after the pool is created:
\<close>

theorem sell_buy_without_pool_message:
  "sell testPrimitives alice 0 1 100 0 minted
     = (Some (AssertFailed (Some ''Pool already exists'')), minted) \<and>
   buy testPrimitives alice 0 1 100 10000 minted
     = (Some (AssertFailed (Some ''Pool already exists'')), minted) \<and>
   createPool testPrimitives alice 0 1 5 5 seeded
     = (Some (AssertFailed (Some ''Pool already exists'')), seeded)"
proof -
  have none: "\<not> poolExists testPrimitives 0 1 minted"
    by (simp add: fixture_defs)
  have out: "calculateTokenOutAmount testPrimitives 0 1 100 minted = Inr 0"
    by (simp add: calculateTokenOutAmount_def fixture_defs
        calculateTokenOutAmountFromReserves_cases)
  have inp: "calculateTokenInAmount testPrimitives 0 1 100 minted
      (Some (AssertFailed (Some errors_poolExists)))
      = Inr (0, Some (AssertFailed (Some errors_poolExists)))"
    by (simp add: calculateTokenInAmount_def fixture_defs
        calculateTokenInAmountFromReserves_cases)
  have "createPool testPrimitives alice 0 1 5 5 seeded
     = (Some (AssertFailed (Some errors_poolExists)), seeded)"
    using poolExists_seeded by (intro createPool_existing) simp_all
  with sell_without_pool [OF none out] buy_without_pool [OF none inp] show ?thesis
    by (simp add: errors_poolExists_def)
qed

end
